theory Spec2Isabelle
  imports Main
begin

section \<open>The metrics exporter of the load-balancing exporter\<close>

text \<open>
  A shallow embedding of \<^verbatim>\<open>exporter/loadbalancingexporter/metrics_exporter.go\<close>.
  Go's \<^verbatim>\<open>error\<close> results are values of \<open>error option\<close> (\<open>None\<close> is \<^verbatim>\<open>nil\<close>),
  a result pair \<^verbatim>\<open>(v, error)\<close> is a sum \<open>error + 'a\<close>, and the calls made to the
  collaborators (load balancer, resolved exporters, stats recorder) are appended to a
  trace of events that every function takes and returns.
\<close>

subsection \<open>Errors\<close>

text \<open>
  \<open>ErrorString\<close> is an error made by \<^verbatim>\<open>errors.New\<close> or \<^verbatim>\<open>fmt.Errorf\<close> (or returned by a
  collaborator); \<open>MultiError\<close> is the aggregate that \<^verbatim>\<open>multierr\<close> builds.
\<close>

datatype error = ErrorString string | MultiError "error list"

text \<open>\<^verbatim>\<open>multierr.Errors\<close>: the errors an error stands for.\<close>

fun errorsOf :: "error \<Rightarrow> error list" where
  "errorsOf (MultiError es) = es"
| "errorsOf (ErrorString s) = [ErrorString s]"

text \<open>
  Modelled from the spec: \<^verbatim>\<open>multierr.Append\<close> belongs to the library go.uber.org/multierr,
  which is not among the source files. It returns the other argument when one is nil and
  otherwise one aggregate error holding the errors of both, in order ("all non-nil
  errors are combined into one aggregate error").
\<close>

definition multierr_Append :: "error option \<Rightarrow> error option \<Rightarrow> error option" where
  "multierr_Append left right =
     (case left of
        None \<Rightarrow> right
      | Some l \<Rightarrow>
          (case right of
             None \<Rightarrow> left
           | Some r \<Rightarrow> Some (MultiError (errorsOf l @ errorsOf r))))"

subsection \<open>The metrics payload\<close>

text \<open>
  The part of \<^verbatim>\<open>pmetric.Metrics\<close> that the exporter reads: the resource-level groups,
  each with the attributes of its resource and its scope-level groups, each of which
  holds metrics with a name. An attribute value is read through \<^verbatim>\<open>Str()\<close>, which is
  the string of a string value and the empty string for a value of another type.
\<close>

datatype Value =
    ValueTypeEmpty
  | ValueTypeStr string
  | ValueTypeInt int
  | ValueTypeBool bool
  | ValueTypeBytes "nat list"

fun Str :: "Value \<Rightarrow> string" where
  "Str (ValueTypeStr s) = s"
| "Str ValueTypeEmpty = []"
| "Str (ValueTypeInt i) = []"
| "Str (ValueTypeBool b) = []"
| "Str (ValueTypeBytes bs) = []"

record pmetric_Metric =
  Name :: string

record pmetric_ScopeMetrics =
  Metrics :: "pmetric_Metric list"

record pmetric_ResourceMetrics =
  Attributes :: "string \<rightharpoonup> Value"
  ScopeMetrics :: "pmetric_ScopeMetrics list"

record pmetric_Metrics =
  ResourceMetrics :: "pmetric_ResourceMetrics list"

subsection \<open>Routing identifiers\<close>

text \<open>
  Modelled from the spec: the declaration of the type \<^verbatim>\<open>routingKey\<close> and of its constants
  is in another file of the package. The exporter uses two of them: \<open>svcRouting\<close>
  (the spec's mode ByServiceName) and \<open>traceIDRouting\<close>, the value the constructor
  starts from (the spec's mode Default).
\<close>

datatype routingKey = traceIDRouting | svcRouting

text \<open>
  The loop of \<^verbatim>\<open>routingIdentifiersFromMetrics\<close> over all resource-level groups, taken
  when the key is \<open>svcRouting\<close>: \<^verbatim>\<open>ids[svc.Str()] = true\<close> for each, and an error at the
  first resource without the attribute.
\<close>

fun svcLoop ::
  "pmetric_ResourceMetrics list \<Rightarrow> (string \<rightharpoonup> bool) \<Rightarrow> error + (string \<rightharpoonup> bool)" where
  "svcLoop [] ids = Inr ids"
| "svcLoop (r # rs) ids =
     (case Attributes r ''service.name'' of
        None \<Rightarrow> Inl (ErrorString ''unable to get metric name'')
      | Some svc \<Rightarrow> svcLoop rs (ids(Str svc \<mapsto> True)))"

definition routingIdentifiersFromMetrics ::
  "pmetric_Metrics \<Rightarrow> routingKey \<Rightarrow> error + (string \<rightharpoonup> bool)" where
  "routingIdentifiersFromMetrics md key =
     (let rs = ResourceMetrics md in
      case rs of
        [] \<Rightarrow> Inl (ErrorString ''empty resource metrics'')
      | r0 # _ \<Rightarrow>
          (case ScopeMetrics r0 of
             [] \<Rightarrow> Inl (ErrorString ''empty scope metrics'')
           | ils0 # _ \<Rightarrow>
               (case Metrics ils0 of
                  [] \<Rightarrow> Inl (ErrorString ''empty metrics'')
                | m0 # _ \<Rightarrow>
                    if key = svcRouting then svcLoop rs Map.empty
                    else Inr (Map.empty(Name m0 \<mapsto> True)))))"

subsection \<open>Collaborators and the trace of their calls\<close>

text \<open>
  What a call of \<^verbatim>\<open>loadBalancer.Exporter\<close> gave: an error, a component that is an
  \<^verbatim>\<open>exporter.Metrics\<close>, or a component of another type (with the name of that type).
\<close>

datatype resolved = ResolveFailed error | ResolvedMetrics | ResolvedOther string

text \<open>
  The events of a dispatch, in the order they happen: \<open>EndpointCall rid endpoint\<close> is
  \<^verbatim>\<open>loadBalancer.Endpoint\<close> with its answer, \<open>ExporterCall endpoint r\<close> is
  \<^verbatim>\<open>loadBalancer.Exporter\<close> with what it gave, \<open>ForwardCall endpoint err\<close> is the
  \<^verbatim>\<open>ConsumeMetrics\<close> of the exporter resolved for the endpoint with the error it
  returned, and \<open>RecordLatency endpoint success ms\<close> is \<^verbatim>\<open>stats.RecordWithTags\<close> with
  the endpoint tag, the success tag and the measured milliseconds.
\<close>

datatype event =
    EndpointCall string string
  | ExporterCall string resolved
  | ForwardCall string "error option"
  | RecordLatency string bool int

text \<open>
  The collaborators have state of their own, so what they answer may depend on all that
  happened before: each of them reads the trace so far. A resolved exporter answers a
  forward with its error and with the time the call took (the difference between
  \<^verbatim>\<open>time.Now()\<close> before and \<^verbatim>\<open>time.Since\<close> after it, in milliseconds).
\<close>

datatype component =
    MetricsExporter "event list \<Rightarrow> pmetric_Metrics \<Rightarrow> error option \<times> int"
  | OtherComponent string

record loadBalancer =
  Endpoint :: "event list \<Rightarrow> string \<Rightarrow> string"
  Exporter :: "event list \<Rightarrow> string \<Rightarrow> error + component"

text \<open>The exporter; \<open>shutdownWg\<close> is the counter of the \<^verbatim>\<open>sync.WaitGroup\<close>.\<close>

record metricExporterImp =
  loadBalancer :: loadBalancer
  routingKey :: routingKey
  stopped :: bool
  shutdownWg :: nat

subsection \<open>Construction\<close>

record Config =
  RoutingKey :: string

text \<open>
  \<^verbatim>\<open>newMetricsExporter\<close>. The function \<^verbatim>\<open>newLoadBalancer\<close> is in another file of the
  package: its result is the parameter \<open>lbResult\<close>.
\<close>

definition newMetricsExporter :: "error + loadBalancer \<Rightarrow> Config \<Rightarrow> error + metricExporterImp" where
  "newMetricsExporter lbResult cfg =
     (case lbResult of
        Inl err \<Rightarrow> Inl err
      | Inr lb \<Rightarrow>
          (let metricExporter =
                 \<lparr>loadBalancer = lb, routingKey = traceIDRouting, stopped = False, shutdownWg = 0\<rparr>
           in if RoutingKey cfg = ''service'' then Inr (metricExporter\<lparr>routingKey := svcRouting\<rparr>)
              else if RoutingKey cfg = ''_metric_ID'' \<or> RoutingKey cfg = '''' then Inr metricExporter
              else Inl (ErrorString (''unsupported routing_key: '' @ RoutingKey cfg))))"

subsection \<open>Dispatch of one sub-batch\<close>

text \<open>
  The loop of \<^verbatim>\<open>consumeMetric\<close> over the routing identifiers, in the order \<open>rids\<close> that
  the \<^verbatim>\<open>range\<close> over the map takes. \<open>err\<close> is the variable \<^verbatim>\<open>err\<close> of the function: each
  iteration assigns it, and \<^verbatim>\<open>return err\<close> after the loop returns what it holds then.
\<close>

fun consumeLoop ::
  "metricExporterImp \<Rightarrow> pmetric_Metrics \<Rightarrow> string list \<Rightarrow> error option \<Rightarrow> event list
     \<Rightarrow> error option \<times> event list" where
  "consumeLoop e md [] err log = (err, log)"
| "consumeLoop e md (rid # rids) err log =
     (let endpoint = Endpoint (loadBalancer e) log rid;
          log1 = log @ [EndpointCall rid endpoint]
      in case Exporter (loadBalancer e) log1 endpoint of
           Inl err1 \<Rightarrow> (Some err1, log1 @ [ExporterCall endpoint (ResolveFailed err1)])
         | Inr (OtherComponent T) \<Rightarrow>
             (Some (ErrorString
                (''unable to export metrics, unexpected exporter type: expected exporter.Metrics but got '' @ T)),
              log1 @ [ExporterCall endpoint (ResolvedOther T)])
         | Inr (MetricsExporter te) \<Rightarrow>
             (let log2 = log1 @ [ExporterCall endpoint ResolvedMetrics];
                  (err2, duration) = te log2 md;
                  log3 = log2 @ [ForwardCall endpoint err2];
                  log4 = (if err2 = None then log3 @ [RecordLatency endpoint True duration]
                          else log3 @ [RecordLatency endpoint False duration])
              in consumeLoop e md rids err2 log4))"

text \<open>
  \<^verbatim>\<open>consumeMetric\<close>. Go does not fix the order in which \<^verbatim>\<open>range\<close> visits the keys of a
  map: \<open>rangeOrder\<close> is the order taken, a parameter.
\<close>

definition consumeMetric ::
  "(event list \<Rightarrow> (string \<rightharpoonup> bool) \<Rightarrow> string list) \<Rightarrow> metricExporterImp \<Rightarrow> pmetric_Metrics
     \<Rightarrow> event list \<Rightarrow> error option \<times> event list" where
  "consumeMetric rangeOrder e md log =
     (case routingIdentifiersFromMetrics md (routingKey e) of
        Inl err \<Rightarrow> (Some err, log)
      | Inr routingIds \<Rightarrow> consumeLoop e md (rangeOrder log routingIds) None log)"

subsection \<open>The top level\<close>

text \<open>The loop of \<^verbatim>\<open>ConsumeMetrics\<close> over the sub-batches, \<open>errs\<close> its variable.\<close>

fun consumeBatches ::
  "(event list \<Rightarrow> (string \<rightharpoonup> bool) \<Rightarrow> string list) \<Rightarrow> metricExporterImp
     \<Rightarrow> pmetric_Metrics list \<Rightarrow> error option \<Rightarrow> event list \<Rightarrow> error option \<times> event list" where
  "consumeBatches rangeOrder e [] errs log = (errs, log)"
| "consumeBatches rangeOrder e (batch # batches) errs log =
     (let (err, log1) = consumeMetric rangeOrder e batch log
      in consumeBatches rangeOrder e batches (multierr_Append errs err) log1)"

text \<open>
  \<^verbatim>\<open>ConsumeMetrics\<close>. The function \<^verbatim>\<open>batchpersignal.SplitMetrics\<close> is in another package
  of the repository: it is the parameter \<open>SplitMetrics\<close>.
\<close>

definition ConsumeMetrics ::
  "(pmetric_Metrics \<Rightarrow> pmetric_Metrics list) \<Rightarrow> (event list \<Rightarrow> (string \<rightharpoonup> bool) \<Rightarrow> string list)
     \<Rightarrow> metricExporterImp \<Rightarrow> pmetric_Metrics \<Rightarrow> event list \<Rightarrow> error option \<times> event list" where
  "ConsumeMetrics SplitMetrics rangeOrder e md log =
     consumeBatches rangeOrder e (SplitMetrics md) None log"

subsection \<open>Shutdown\<close>

text \<open>
  \<^verbatim>\<open>Shutdown\<close> sets the stop flag and waits on the wait group: \<^verbatim>\<open>Wait\<close> returns when the
  counter is zero and blocks while it is not, so the call returns (\<open>Some\<close>, with the
  exporter as it leaves it, the error \<^verbatim>\<open>nil\<close> and the trace) only from a counter of zero.
  It makes no call to a collaborator: the trace is returned as it was.
\<close>

definition Shutdown ::
  "metricExporterImp \<Rightarrow> event list \<Rightarrow> (metricExporterImp \<times> error option \<times> event list) option" where
  "Shutdown e log =
     (let e1 = e\<lparr>stopped := True\<rparr>
      in if shutdownWg e1 = 0 then Some (e1, None, log) else None)"

text \<open>
  Invocations that overlap in time, as steps of a state: the exporter, the trace, the
  payloads of the invocations of \<^verbatim>\<open>ConsumeMetrics\<close> that have been entered and have
  not returned, and whether a call of \<^verbatim>\<open>Shutdown\<close> has returned. Entering \<^verbatim>\<open>ConsumeMetrics\<close>
  and returning from it leave the exporter as it is (the function assigns no field of
  \<^verbatim>\<open>e\<close> and calls no method of \<^verbatim>\<open>e.shutdownWg\<close>); its events join the trace when it returns.
\<close>

record system =
  exporter :: metricExporterImp
  trace :: "event list"
  inFlight :: "pmetric_Metrics list"
  shutdownReturned :: bool

inductive step ::
  "(pmetric_Metrics \<Rightarrow> pmetric_Metrics list) \<Rightarrow> (event list \<Rightarrow> (string \<rightharpoonup> bool) \<Rightarrow> string list)
     \<Rightarrow> system \<Rightarrow> system \<Rightarrow> bool"
  for SplitMetrics rangeOrder where
  consume_enter:
    "step SplitMetrics rangeOrder s (s\<lparr>inFlight := md # inFlight s\<rparr>)"
| consume_return:
    "inFlight s = md # mds \<Longrightarrow>
     step SplitMetrics rangeOrder s
       (s\<lparr>trace := snd (ConsumeMetrics SplitMetrics rangeOrder (exporter s) md (trace s)),
          inFlight := mds\<rparr>)"
| shutdown:
    "Shutdown (exporter s) (trace s) = Some (e1, err, log1) \<Longrightarrow>
     step SplitMetrics rangeOrder s (s\<lparr>exporter := e1, trace := log1, shutdownReturned := True\<rparr>)"

subsection \<open>Properties of a trace\<close>




text \<open>
  Nothing follows a resolution that gave no metrics exporter: such an
  \<open>ExporterCall\<close> is the last event.
\<close>

fun stopsAtFailure :: "event list \<Rightarrow> bool" where
  "stopsAtFailure [] = True"
| "stopsAtFailure (ExporterCall endpoint r # evs) =
     ((r = ResolvedMetrics \<or> evs = []) \<and> stopsAtFailure evs)"
| "stopsAtFailure (EndpointCall rid endpoint # evs) = stopsAtFailure evs"
| "stopsAtFailure (ForwardCall endpoint err # evs) = stopsAtFailure evs"
| "stopsAtFailure (RecordLatency endpoint success ms # evs) = stopsAtFailure evs"

text \<open>
  Nothing follows a failed step of any kind: a resolution that gave no metrics
  exporter, or a forward that returned an error together with its sample.
\<close>

fun stopsAtAnyFailure :: "event list \<Rightarrow> bool" where
  "stopsAtAnyFailure [] = True"
| "stopsAtAnyFailure (ExporterCall endpoint r # evs) =
     ((r = ResolvedMetrics \<or> evs = []) \<and> stopsAtAnyFailure evs)"
| "stopsAtAnyFailure (ForwardCall endpoint err # evs) =
     ((err = None \<or> length evs \<le> 1) \<and> stopsAtAnyFailure evs)"
| "stopsAtAnyFailure (EndpointCall rid endpoint # evs) = stopsAtAnyFailure evs"
| "stopsAtAnyFailure (RecordLatency endpoint success ms # evs) = stopsAtAnyFailure evs"

text \<open>
  Every forward is sampled once: a \<open>ForwardCall\<close> goes to the endpoint that the last
  \<open>EndpointCall\<close> answered (\<open>cur\<close>), the event after it is a \<open>RecordLatency\<close> with that
  endpoint and with the success tag that says whether the forward returned no error, and
  there is no other \<open>RecordLatency\<close>.
\<close>

fun sampledOnce :: "string option \<Rightarrow> event list \<Rightarrow> bool" where
  "sampledOnce cur [] = True"
| "sampledOnce cur (EndpointCall rid endpoint # evs) = sampledOnce (Some endpoint) evs"
| "sampledOnce cur (ExporterCall endpoint r # evs) = sampledOnce cur evs"
| "sampledOnce cur (ForwardCall endpoint err # evs) =
     (cur = Some endpoint \<and>
      (case evs of
         RecordLatency endpoint' success ms # evs' \<Rightarrow>
           endpoint' = endpoint \<and> success = (err = None) \<and> sampledOnce None evs'
       | _ \<Rightarrow> False))"
| "sampledOnce cur (RecordLatency endpoint success ms # evs) = False"

text \<open>
  The results of the sub-batches dispatched one after the other, each from the trace
  that the ones before it left, and the trace at the end.
\<close>

fun dispatchAll ::
  "(event list \<Rightarrow> (string \<rightharpoonup> bool) \<Rightarrow> string list) \<Rightarrow> metricExporterImp
     \<Rightarrow> pmetric_Metrics list \<Rightarrow> event list \<Rightarrow> error option list \<times> event list" where
  "dispatchAll rangeOrder e [] log = ([], log)"
| "dispatchAll rangeOrder e (batch # batches) log =
     (let (err, log1) = consumeMetric rangeOrder e batch log;
          (errs, log2) = dispatchAll rangeOrder e batches log1
      in (err # errs, log2))"

text \<open>The errors that an error value stands for: none for \<^verbatim>\<open>nil\<close>.\<close>

fun allErrors :: "error option \<Rightarrow> error list" where
  "allErrors None = []"
| "allErrors (Some err) = errorsOf err"

text \<open>The three emptiness validations of \<^verbatim>\<open>routingIdentifiersFromMetrics\<close> pass.\<close>

definition validated :: "pmetric_Metrics \<Rightarrow> bool" where
  "validated md =
     (ResourceMetrics md \<noteq> [] \<and> ScopeMetrics (hd (ResourceMetrics md)) \<noteq> [] \<and>
      Metrics (hd (ScopeMetrics (hd (ResourceMetrics md)))) \<noteq> [])"

text \<open>The first metric of the first scope of the first resource-level group.\<close>

definition firstMetric :: "pmetric_Metrics \<Rightarrow> pmetric_Metric" where
  "firstMetric md = hd (Metrics (hd (ScopeMetrics (hd (ResourceMetrics md)))))"

subsection \<open>Example inputs\<close>

text \<open>
  A payload written down by its resource-level groups: for each the value of its
  \<^verbatim>\<open>service.name\<close> attribute, if it has one, and the metric names of each of its scopes.
\<close>

definition resourceOf :: "string option \<Rightarrow> string list list \<Rightarrow> pmetric_ResourceMetrics" where
  "resourceOf svc scopes =
     \<lparr>Attributes = (case svc of None \<Rightarrow> Map.empty | Some s \<Rightarrow> [''service.name'' \<mapsto> ValueTypeStr s]),
      ScopeMetrics = map (\<lambda>names. \<lparr>Metrics = map (\<lambda>n. \<lparr>Name = n\<rparr>) names\<rparr>) scopes\<rparr>"

definition batchOf :: "(string option \<times> string list list) list \<Rightarrow> pmetric_Metrics" where
  "batchOf rs = \<lparr>ResourceMetrics = map (\<lambda>(svc, scopes). resourceOf svc scopes) rs\<rparr>"

text \<open>
  A load balancer whose endpoint for an identifier is \<open>backend-\<close> followed by the
  identifier. It has no exporter for \<open>backend-gone\<close>, a component that is no metrics
  exporter for \<open>backend-traces\<close>, an exporter whose forward fails after 7 ms for
  \<open>backend-down\<close>, and an exporter whose forward succeeds after 3 ms for any other
  endpoint.
\<close>

definition scenarioBackend :: "string \<Rightarrow> error + component" where
  "scenarioBackend endpoint =
     (if endpoint = ''backend-gone'' then Inl (ErrorString ''no exporter for endpoint'')
      else if endpoint = ''backend-traces'' then Inr (OtherComponent ''*tracesExporter'')
      else if endpoint = ''backend-down''
        then Inr (MetricsExporter (\<lambda>log md. (Some (ErrorString ''connection refused''), 7)))
      else Inr (MetricsExporter (\<lambda>log md. (None, 3))))"

definition scenarioLoadBalancer :: loadBalancer where
  "scenarioLoadBalancer =
     \<lparr>Endpoint = (\<lambda>log rid. ''backend-'' @ rid), Exporter = (\<lambda>log endpoint. scenarioBackend endpoint)\<rparr>"

definition scenarioExporter :: "routingKey \<Rightarrow> metricExporterImp" where
  "scenarioExporter key =
     \<lparr>loadBalancer = scenarioLoadBalancer, routingKey = key, stopped = False, shutdownWg = 0\<rparr>"

text \<open>A \<^verbatim>\<open>range\<close> that visits the identifiers it finds among these names, in this order.\<close>

definition scenarioOrder :: "event list \<Rightarrow> (string \<rightharpoonup> bool) \<Rightarrow> string list" where
  "scenarioOrder log ids =
     filter (\<lambda>k. ids k \<noteq> None) [''a'', ''b'', ''cpu'', ''down'', ''gone'', ''traces'', ''up'']"

text \<open>A splitter that makes one sub-batch of each resource-level group.\<close>

definition scenarioSplit :: "pmetric_Metrics \<Rightarrow> pmetric_Metrics list" where
  "scenarioSplit md = map (\<lambda>r. \<lparr>ResourceMetrics = [r]\<rparr>) (ResourceMetrics md)"

text \<open>The exporter of the example with no invocation under way.\<close>

definition idleSystem :: system where
  "idleSystem =
     \<lparr>exporter = scenarioExporter traceIDRouting, trace = [], inFlight = [], shutdownReturned = False\<rparr>"

section \<open>Identifier extraction\<close>

lemma svcLoop_missing:
  "\<exists>r\<in>set rs. Attributes r ''service.name'' = None \<Longrightarrow>
   svcLoop rs ids = Inl (ErrorString ''unable to get metric name'')"
  by (induction rs arbitrary: ids) (auto split: option.splits)

lemma svcLoop_present:
  "\<forall>r\<in>set rs. Attributes r ''service.name'' \<noteq> None \<Longrightarrow>
   svcLoop rs ids =
     Inr (\<lambda>k. if k \<in> (\<lambda>r. Str (the (Attributes r ''service.name''))) ` set rs then Some True else ids k)"
proof (induction rs arbitrary: ids)
  case Nil
  then show ?case by simp
next
  case (Cons r rs)
  then obtain svc where svc: "Attributes r ''service.name'' = Some svc" by auto
  have "svcLoop (r # rs) ids = svcLoop rs (ids(Str svc \<mapsto> True))"
    using svc by simp
  also have "\<dots> = Inr (\<lambda>k. if k \<in> (\<lambda>r. Str (the (Attributes r ''service.name''))) ` set rs
                           then Some True else (ids(Str svc \<mapsto> True)) k)"
    using Cons by simp
  finally show ?case using svc by (auto simp: fun_eq_iff)
qed

lemma validated_cases:
  assumes "ResourceMetrics md \<noteq> []"
    and "ScopeMetrics (hd (ResourceMetrics md)) \<noteq> []"
    and "Metrics (hd (ScopeMetrics (hd (ResourceMetrics md)))) \<noteq> []"
  shows "routingIdentifiersFromMetrics md key =
     (if key = svcRouting then svcLoop (ResourceMetrics md) Map.empty
      else Inr (Map.empty(Name (hd (Metrics (hd (ScopeMetrics (hd (ResourceMetrics md)))))) \<mapsto> True)))"
proof -
  obtain r0 rs where rs: "ResourceMetrics md = r0 # rs"
    using assms(1) by (cases "ResourceMetrics md") auto
  obtain s0 ss where ss: "ScopeMetrics r0 = s0 # ss"
    using assms(2) rs by (cases "ScopeMetrics r0") auto
  obtain m0 ms where ms: "Metrics s0 = m0 # ms"
    using assms(3) rs ss by (cases "Metrics s0") auto
  show ?thesis
    by (simp add: routingIdentifiersFromMetrics_def rs ss ms)
qed

lemmas scenario_defs =
  batchOf_def resourceOf_def scenarioBackend_def scenarioLoadBalancer_def scenarioExporter_def
  scenarioOrder_def scenarioSplit_def

lemma validated_default:
  "validated md \<Longrightarrow> key \<noteq> svcRouting \<Longrightarrow>
   routingIdentifiersFromMetrics md key = Inr [Name (firstMetric md) \<mapsto> True]"
  by (simp add: validated_def validated_cases firstMetric_def)

lemma validated_service:
  "validated md \<Longrightarrow>
   routingIdentifiersFromMetrics md svcRouting = svcLoop (ResourceMetrics md) Map.empty"
  by (simp add: validated_def validated_cases)

section \<open>The dispatch loop\<close>



lemma consumeLoop_failed:
  assumes "Exporter (loadBalancer e) (log @ [EndpointCall rid (Endpoint (loadBalancer e) log rid)])
             (Endpoint (loadBalancer e) log rid) = Inl err1"
  shows "consumeLoop e md (rid # rids) err log =
     (Some err1,
      log @ [EndpointCall rid (Endpoint (loadBalancer e) log rid),
             ExporterCall (Endpoint (loadBalancer e) log rid) (ResolveFailed err1)])"
  using assms by (simp add: Let_def)

lemma consumeLoop_other:
  assumes "Exporter (loadBalancer e) (log @ [EndpointCall rid (Endpoint (loadBalancer e) log rid)])
             (Endpoint (loadBalancer e) log rid) = Inr (OtherComponent T)"
  shows "consumeLoop e md (rid # rids) err log =
     (Some (ErrorString
        (''unable to export metrics, unexpected exporter type: expected exporter.Metrics but got '' @ T)),
      log @ [EndpointCall rid (Endpoint (loadBalancer e) log rid),
             ExporterCall (Endpoint (loadBalancer e) log rid) (ResolvedOther T)])"
  using assms by (simp add: Let_def)

lemma consumeLoop_forward:
  assumes "Exporter (loadBalancer e) (log @ [EndpointCall rid (Endpoint (loadBalancer e) log rid)])
             (Endpoint (loadBalancer e) log rid) = Inr (MetricsExporter te)"
    and "te (log @ [EndpointCall rid (Endpoint (loadBalancer e) log rid),
                    ExporterCall (Endpoint (loadBalancer e) log rid) ResolvedMetrics]) md = (err2, duration)"
  shows "consumeLoop e md (rid # rids) err log =
     consumeLoop e md rids err2
       (log @ [EndpointCall rid (Endpoint (loadBalancer e) log rid),
               ExporterCall (Endpoint (loadBalancer e) log rid) ResolvedMetrics,
               ForwardCall (Endpoint (loadBalancer e) log rid) err2,
               RecordLatency (Endpoint (loadBalancer e) log rid) (err2 = None) duration])"
  using assms by (cases err2) (simp_all add: Let_def)

text \<open>The three ways an iteration can go.\<close>

lemma consumeLoop_cases:
  obtains (failed) err1 where
      "Exporter (loadBalancer e) (log @ [EndpointCall rid (Endpoint (loadBalancer e) log rid)])
         (Endpoint (loadBalancer e) log rid) = Inl err1"
  | (other) T where
      "Exporter (loadBalancer e) (log @ [EndpointCall rid (Endpoint (loadBalancer e) log rid)])
         (Endpoint (loadBalancer e) log rid) = Inr (OtherComponent T)"
  | (forward) te err2 duration where
      "Exporter (loadBalancer e) (log @ [EndpointCall rid (Endpoint (loadBalancer e) log rid)])
         (Endpoint (loadBalancer e) log rid) = Inr (MetricsExporter te)"
      "te (log @ [EndpointCall rid (Endpoint (loadBalancer e) log rid),
                  ExporterCall (Endpoint (loadBalancer e) log rid) ResolvedMetrics]) md = (err2, duration)"
proof (cases "Exporter (loadBalancer e) (log @ [EndpointCall rid (Endpoint (loadBalancer e) log rid)])
         (Endpoint (loadBalancer e) log rid)")
  case (Inl err1)
  then show ?thesis by (rule failed)
next
  case (Inr exp)
  show ?thesis
  proof (cases exp)
    case (OtherComponent T)
    with Inr show ?thesis by (auto intro: other)
  next
    case (MetricsExporter te)
    with Inr show ?thesis
      by (cases "te (log @ [EndpointCall rid (Endpoint (loadBalancer e) log rid),
                  ExporterCall (Endpoint (loadBalancer e) log rid) ResolvedMetrics]) md")
         (auto intro: forward)
  qed
qed


lemma consumeLoop_shape:
  "consumeLoop e md rids err log = (r, log') \<Longrightarrow>
   \<exists>evs. log' = log @ evs \<and> stopsAtFailure evs \<and> sampledOnce cur evs"
proof (induction rids arbitrary: err log cur)
  case Nil
  then show ?case by simp
next
  case (Cons rid rids)
  show ?case
  proof (cases rule: consumeLoop_cases [where e = e and log = log and rid = rid and md = md])
    case (failed err1)
    from Cons.prems consumeLoop_failed [OF failed, of md rids err]
    show ?thesis by auto
  next
    case (other T)
    from Cons.prems consumeLoop_other [OF other, of md rids err]
    show ?thesis by auto
  next
    case (forward te err2 duration)
    let ?ep = "Endpoint (loadBalancer e) log rid"
    let ?grp = "[EndpointCall rid ?ep, ExporterCall ?ep ResolvedMetrics, ForwardCall ?ep err2,
                 RecordLatency ?ep (err2 = None) duration]"
    have rec: "consumeLoop e md rids err2 (log @ ?grp) = (r, log')"
      using Cons.prems consumeLoop_forward [OF forward, of rids err] by simp
    from Cons.IH [OF rec, of None] obtain evs where evs: "log' = (log @ ?grp) @ evs"
      "stopsAtFailure evs" "sampledOnce None evs"
      by blast
    have "log' = log @ (?grp @ evs)" using evs(1) by simp
    moreover have "stopsAtFailure (?grp @ evs)" using evs(2) by simp
    moreover have "sampledOnce cur (?grp @ evs)" using evs(3) by simp
    ultimately show ?thesis by blast
  qed
qed

lemma consumeLoop_first:
  "\<exists>evs. snd (consumeLoop e md (rid # rids) err log) =
     log @ EndpointCall rid (Endpoint (loadBalancer e) log rid) # evs"
proof (cases rule: consumeLoop_cases [where e = e and log = log and rid = rid and md = md])
  case (failed err1)
  then show ?thesis by (simp add: Let_def)
next
  case (other T)
  then show ?thesis by (simp add: Let_def)
next
  case (forward te err2 duration)
  let ?ep = "Endpoint (loadBalancer e) log rid"
  let ?grp = "[EndpointCall rid ?ep, ExporterCall ?ep ResolvedMetrics, ForwardCall ?ep err2,
               RecordLatency ?ep (err2 = None) duration]"
  obtain r log' where rec: "consumeLoop e md rids err2 (log @ ?grp) = (r, log')"
    by (cases "consumeLoop e md rids err2 (log @ ?grp)")
  from consumeLoop_shape [OF rec] obtain evs where "log' = (log @ ?grp) @ evs" by blast
  then show ?thesis
    using rec consumeLoop_forward [OF forward, of rids err] by simp
qed

section \<open>Dispatch of a sub-batch and of a payload\<close>

lemma consumeMetric_extraction_failed:
  "routingIdentifiersFromMetrics md (routingKey e) = Inl err \<Longrightarrow>
   consumeMetric rangeOrder e md log = (Some err, log)"
  by (simp add: consumeMetric_def)

lemma consumeMetric_extracted:
  "routingIdentifiersFromMetrics md (routingKey e) = Inr ids \<Longrightarrow>
   consumeMetric rangeOrder e md log = consumeLoop e md (rangeOrder log ids) None log"
  by (simp add: consumeMetric_def)

lemma consumeMetric_shape:
  "\<exists>evs. snd (consumeMetric rangeOrder e md log) = log @ evs \<and> stopsAtFailure evs \<and> sampledOnce cur evs"
proof (cases "routingIdentifiersFromMetrics md (routingKey e)")
  case (Inl err)
  then show ?thesis by (simp add: consumeMetric_extraction_failed)
next
  case (Inr ids)
  obtain r log' where run: "consumeLoop e md (rangeOrder log ids) None log = (r, log')"
    by (cases "consumeLoop e md (rangeOrder log ids) None log")
  from consumeLoop_shape [OF run, of cur] show ?thesis
    using Inr run by (simp add: consumeMetric_extracted)
qed

lemma allErrors_Append: "allErrors (multierr_Append a b) = allErrors a @ allErrors b"
  by (cases a; cases b) (simp_all add: multierr_Append_def)

lemma Append_nil_iff: "(multierr_Append a b = None) = (a = None \<and> b = None)"
  by (cases a; cases b) (simp_all add: multierr_Append_def)

lemma consumeBatches_dispatchAll:
  "snd (consumeBatches rangeOrder e batches errs log) = snd (dispatchAll rangeOrder e batches log)
   \<and> allErrors (fst (consumeBatches rangeOrder e batches errs log)) =
       allErrors errs @ concat (map allErrors (fst (dispatchAll rangeOrder e batches log)))
   \<and> (fst (consumeBatches rangeOrder e batches errs log) = None) =
       (errs = None \<and> (\<forall>r\<in>set (fst (dispatchAll rangeOrder e batches log)). r = None))"
proof (induction batches arbitrary: errs log)
  case Nil
  then show ?case by simp
next
  case (Cons batch batches)
  obtain err log1 where one: "consumeMetric rangeOrder e batch log = (err, log1)"
    by (cases "consumeMetric rangeOrder e batch log")
  obtain rs log2 where rest: "dispatchAll rangeOrder e batches log1 = (rs, log2)"
    by (cases "dispatchAll rangeOrder e batches log1")
  from Cons.IH [of "multierr_Append errs err" log1] one rest
  show ?case by (auto simp: allErrors_Append Append_nil_iff)
qed

lemma length_dispatchAll: "length (fst (dispatchAll rangeOrder e batches log)) = length batches"
proof (induction batches arbitrary: log)
  case Nil
  then show ?case by simp
next
  case (Cons batch batches)
  obtain err log1 where one: "consumeMetric rangeOrder e batch log = (err, log1)"
    by (cases "consumeMetric rangeOrder e batch log")
  obtain rs log2 where rest: "dispatchAll rangeOrder e batches log1 = (rs, log2)"
    by (cases "dispatchAll rangeOrder e batches log1")
  from Cons.IH [of log1] one rest show ?case by simp
qed

section \<open>The claims of the specification\<close>



text \<open>
  Claim C2. \<^verbatim>\<open>ConsumeMetrics\<close> dispatches every sub-batch that \<^verbatim>\<open>SplitMetrics\<close> gives, one
  after the other and whatever the earlier ones returned: there is one result for each
  sub-batch, and the trace is the one that dispatching all of them leaves. The error it
  returns holds exactly the errors of the results that are not \<^verbatim>\<open>nil\<close>, in order, and it
  is \<^verbatim>\<open>nil\<close> if and only if every result is \<^verbatim>\<open>nil\<close>.
\<close>

theorem ConsumeMetrics_aggregates_errors:
  "length (fst (dispatchAll rangeOrder e (SplitMetrics md) log)) = length (SplitMetrics md)
   \<and> snd (ConsumeMetrics SplitMetrics rangeOrder e md log) =
       snd (dispatchAll rangeOrder e (SplitMetrics md) log)
   \<and> allErrors (fst (ConsumeMetrics SplitMetrics rangeOrder e md log)) =
       concat (map allErrors (fst (dispatchAll rangeOrder e (SplitMetrics md) log)))
   \<and> (fst (ConsumeMetrics SplitMetrics rangeOrder e md log) = None) =
       (\<forall>r\<in>set (fst (dispatchAll rangeOrder e (SplitMetrics md) log)). r = None)"
  using consumeBatches_dispatchAll [of rangeOrder e "SplitMetrics md" None log]
    length_dispatchAll [of rangeOrder e "SplitMetrics md" log]
  by (simp add: ConsumeMetrics_def)

theorem ConsumeMetrics_aggregates_errors_witness:
  "fst (dispatchAll scenarioOrder (scenarioExporter traceIDRouting)
      (scenarioSplit (batchOf [(None, [[''down'']]), (None, []), (None, [[''cpu'']])])) []) =
     [Some (ErrorString ''connection refused''), Some (ErrorString ''empty scope metrics''), None]
   \<and> allErrors (fst (ConsumeMetrics scenarioSplit scenarioOrder (scenarioExporter traceIDRouting)
      (batchOf [(None, [[''down'']]), (None, []), (None, [[''cpu'']])]) [])) =
     [ErrorString ''connection refused'', ErrorString ''empty scope metrics'']
   \<and> fst (ConsumeMetrics scenarioSplit scenarioOrder (scenarioExporter traceIDRouting)
      (batchOf [(None, [[''down'']]), (None, []), (None, [[''cpu'']])]) []) \<noteq> None
   \<and> fst (dispatchAll scenarioOrder (scenarioExporter traceIDRouting)
      (scenarioSplit (batchOf [(None, [[''up'']]), (None, [[''cpu'']])])) []) = [None, None]
   \<and> fst (ConsumeMetrics scenarioSplit scenarioOrder (scenarioExporter traceIDRouting)
      (batchOf [(None, [[''up'']]), (None, [[''cpu'']])]) []) = None"
proof -
  let ?e = "scenarioExporter traceIDRouting"
  let ?md = "batchOf [(None, [[''down'']]), (None, []), (None, [[''cpu'']])]"
  let ?ok = "batchOf [(None, [[''up'']]), (None, [[''cpu'']])]"
  have rs: "fst (dispatchAll scenarioOrder ?e (scenarioSplit ?md) []) =
      [Some (ErrorString ''connection refused''), Some (ErrorString ''empty scope metrics''), None]"
    by (simp add: consumeMetric_def routingIdentifiersFromMetrics_def scenario_defs Let_def
          del: not_None_eq)
  have oks: "fst (dispatchAll scenarioOrder ?e (scenarioSplit ?ok) []) = [None, None]"
    by (simp add: consumeMetric_def routingIdentifiersFromMetrics_def scenario_defs Let_def
          del: not_None_eq)
  note a = ConsumeMetrics_aggregates_errors [of scenarioOrder ?e scenarioSplit ?md "[]"]
  note b = ConsumeMetrics_aggregates_errors [of scenarioOrder ?e scenarioSplit ?ok "[]"]
  from a rs have "allErrors (fst (ConsumeMetrics scenarioSplit scenarioOrder ?e ?md [])) =
      [ErrorString ''connection refused'', ErrorString ''empty scope metrics'']"
    by simp
  moreover from a rs have "fst (ConsumeMetrics scenarioSplit scenarioOrder ?e ?md []) \<noteq> None"
    by simp
  moreover from b oks have "fst (ConsumeMetrics scenarioSplit scenarioOrder ?e ?ok []) = None"
    by simp
  ultimately show ?thesis using rs oks by blast
qed

text \<open>
  Claim C3, as stated, fails for a forward failure: with the identifiers \<open>down\<close> and
  \<open>up\<close>, the forward to \<open>backend-down\<close> fails and is sampled, and the loop goes on to
  resolve \<open>backend-up\<close>, to forward to it and to sample it; the dispatch returns \<^verbatim>\<open>nil\<close>.
\<close>

theorem forward_failure_does_not_stop:
  "consumeMetric scenarioOrder (scenarioExporter svcRouting)
      (batchOf [(Some ''down'', [[''cpu'']]), (Some ''up'', [])]) [] =
     (None,
      [EndpointCall ''down'' ''backend-down'', ExporterCall ''backend-down'' ResolvedMetrics,
       ForwardCall ''backend-down'' (Some (ErrorString ''connection refused'')),
       RecordLatency ''backend-down'' False 7,
       EndpointCall ''up'' ''backend-up'', ExporterCall ''backend-up'' ResolvedMetrics,
       ForwardCall ''backend-up'' None, RecordLatency ''backend-up'' True 3])
   \<and> \<not> stopsAtAnyFailure (snd (consumeMetric scenarioOrder (scenarioExporter svcRouting)
      (batchOf [(Some ''down'', [[''cpu'']]), (Some ''up'', [])]) []))"
  by (simp add: consumeMetric_def routingIdentifiersFromMetrics_def scenario_defs Let_def
        del: not_None_eq)

text \<open>
  Claim C3, amended. Within a sub-batch, the first resolution that gives no metrics
  exporter (an error of \<^verbatim>\<open>Exporter\<close>, or a component of another type) ends the dispatch:
  its \<open>ExporterCall\<close> is the last event, so no endpoint is resolved and nothing is
  forwarded or sampled for the identifiers after it. A forward, whether it fails or not,
  is followed by its sample and by the dispatch of the remaining identifiers.
\<close>

theorem consumeMetric_stops_at_resolution_failure:
  "(\<exists>evs. snd (consumeMetric rangeOrder e md log) = log @ evs \<and> stopsAtFailure evs)
   \<and> (Exporter (loadBalancer e) (log @ [EndpointCall rid (Endpoint (loadBalancer e) log rid)])
         (Endpoint (loadBalancer e) log rid) = Inr (MetricsExporter te)
       \<and> te (log @ [EndpointCall rid (Endpoint (loadBalancer e) log rid),
                     ExporterCall (Endpoint (loadBalancer e) log rid) ResolvedMetrics]) md = (err2, duration)
       \<longrightarrow> consumeLoop e md (rid # rids) err log =
             consumeLoop e md rids err2
               (log @ [EndpointCall rid (Endpoint (loadBalancer e) log rid),
                       ExporterCall (Endpoint (loadBalancer e) log rid) ResolvedMetrics,
                       ForwardCall (Endpoint (loadBalancer e) log rid) err2,
                       RecordLatency (Endpoint (loadBalancer e) log rid) (err2 = None) duration]))"
  using consumeMetric_shape [of rangeOrder e md log None]
    consumeLoop_forward [of e log rid te md err2 duration rids err]
  by blast

theorem consumeMetric_stops_at_resolution_failure_witness:
  "snd (consumeMetric scenarioOrder (scenarioExporter svcRouting)
      (batchOf [(Some ''a'', [[''cpu'']]), (Some ''gone'', []), (Some ''up'', [])]) []) =
     [EndpointCall ''a'' ''backend-a'', ExporterCall ''backend-a'' ResolvedMetrics,
      ForwardCall ''backend-a'' None, RecordLatency ''backend-a'' True 3,
      EndpointCall ''gone'' ''backend-gone'',
      ExporterCall ''backend-gone'' (ResolveFailed (ErrorString ''no exporter for endpoint''))]
   \<and> stopsAtFailure
     [EndpointCall ''a'' ''backend-a'', ExporterCall ''backend-a'' ResolvedMetrics,
      ForwardCall ''backend-a'' None, RecordLatency ''backend-a'' True 3,
      EndpointCall ''gone'' ''backend-gone'',
      ExporterCall ''backend-gone'' (ResolveFailed (ErrorString ''no exporter for endpoint''))]
   \<and> consumeLoop (scenarioExporter svcRouting) (batchOf [(Some ''down'', [[''cpu'']]), (Some ''up'', [])])
        [''down'', ''up''] None [] =
      consumeLoop (scenarioExporter svcRouting) (batchOf [(Some ''down'', [[''cpu'']]), (Some ''up'', [])])
        [''up''] (Some (ErrorString ''connection refused''))
        [EndpointCall ''down'' ''backend-down'', ExporterCall ''backend-down'' ResolvedMetrics,
         ForwardCall ''backend-down'' (Some (ErrorString ''connection refused'')),
         RecordLatency ''backend-down'' False 7]"
proof -
  let ?e = "scenarioExporter svcRouting"
  let ?md = "batchOf [(Some ''a'', [[''cpu'']]), (Some ''gone'', []), (Some ''up'', [])]"
  let ?md2 = "batchOf [(Some ''down'', [[''cpu'']]), (Some ''up'', [])]"
  let ?trace = "[EndpointCall ''a'' ''backend-a'', ExporterCall ''backend-a'' ResolvedMetrics,
      ForwardCall ''backend-a'' None, RecordLatency ''backend-a'' True 3,
      EndpointCall ''gone'' ''backend-gone'',
      ExporterCall ''backend-gone'' (ResolveFailed (ErrorString ''no exporter for endpoint''))]"
  have tr: "snd (consumeMetric scenarioOrder ?e ?md []) = ?trace"
    by (simp add: consumeMetric_def routingIdentifiersFromMetrics_def scenario_defs Let_def
          del: not_None_eq)
  from consumeMetric_stops_at_resolution_failure [of scenarioOrder ?e ?md "[]"] tr
  have stops: "stopsAtFailure ?trace"
    by auto
  have exp: "Exporter (loadBalancer ?e) ([] @ [EndpointCall ''down'' (Endpoint (loadBalancer ?e) [] ''down'')])
         (Endpoint (loadBalancer ?e) [] ''down'') =
       Inr (MetricsExporter (\<lambda>log md. (Some (ErrorString ''connection refused''), 7)))"
    by (simp add: scenarioExporter_def scenarioLoadBalancer_def scenarioBackend_def)
  from consumeMetric_stops_at_resolution_failure [of scenarioOrder ?e ?md2 "[]" "''down''"
      "\<lambda>log md. (Some (ErrorString ''connection refused''), 7)" "Some (ErrorString ''connection refused'')"
      7 "[''up'']" None] exp
  have "consumeLoop ?e ?md2 (''down'' # [''up'']) None [] =
      consumeLoop ?e ?md2 [''up''] (Some (ErrorString ''connection refused''))
        ([] @ [EndpointCall ''down'' (Endpoint (loadBalancer ?e) [] ''down''),
               ExporterCall (Endpoint (loadBalancer ?e) [] ''down'') ResolvedMetrics,
               ForwardCall (Endpoint (loadBalancer ?e) [] ''down'') (Some (ErrorString ''connection refused'')),
               RecordLatency (Endpoint (loadBalancer ?e) [] ''down'')
                 (Some (ErrorString ''connection refused'') = None) 7])"
    by blast
  then have "consumeLoop ?e ?md2 [''down'', ''up''] None [] =
      consumeLoop ?e ?md2 [''up''] (Some (ErrorString ''connection refused''))
        [EndpointCall ''down'' ''backend-down'', ExporterCall ''backend-down'' ResolvedMetrics,
         ForwardCall ''backend-down'' (Some (ErrorString ''connection refused'')),
         RecordLatency ''backend-down'' False 7]"
    by (simp add: scenarioExporter_def scenarioLoadBalancer_def del: consumeLoop.simps)
  then show ?thesis using tr stops by simp
qed

text \<open>
  Claim C4. \<^verbatim>\<open>ConsumeMetrics\<close> calls neither \<^verbatim>\<open>Add\<close> nor \<^verbatim>\<open>Done\<close> on the wait group, so
  the counter stays zero and \<^verbatim>\<open>Wait\<close> does not block. From the idle exporter, an
  invocation of \<^verbatim>\<open>ConsumeMetrics\<close> is entered, and \<^verbatim>\<open>Shutdown\<close> then returns \<^verbatim>\<open>nil\<close>
  while that invocation is in flight; it has set the stop flag and has made no call to
  the load balancer (the trace is unchanged).
\<close>

theorem Shutdown_returns_during_ConsumeMetrics:
  "step scenarioSplit scenarioOrder idleSystem (idleSystem\<lparr>inFlight := [batchOf [(None, [[''cpu'']])]]\<rparr>)
   \<and> step scenarioSplit scenarioOrder (idleSystem\<lparr>inFlight := [batchOf [(None, [[''cpu'']])]]\<rparr>)
       \<lparr>exporter = (scenarioExporter traceIDRouting)\<lparr>stopped := True\<rparr>, trace = [],
        inFlight = [batchOf [(None, [[''cpu'']])]], shutdownReturned = True\<rparr>
   \<and> Shutdown (scenarioExporter traceIDRouting) [] =
       Some ((scenarioExporter traceIDRouting)\<lparr>stopped := True\<rparr>, None, [])"
proof -
  let ?md = "batchOf [(None, [[''cpu'']])]"
  have sd: "Shutdown (scenarioExporter traceIDRouting) [] =
       Some ((scenarioExporter traceIDRouting)\<lparr>stopped := True\<rparr>, None, [])"
    by (simp add: Shutdown_def scenarioExporter_def)
  have "step scenarioSplit scenarioOrder idleSystem (idleSystem\<lparr>inFlight := ?md # inFlight idleSystem\<rparr>)"
    by (rule consume_enter)
  then have one: "step scenarioSplit scenarioOrder idleSystem (idleSystem\<lparr>inFlight := [?md]\<rparr>)"
    by (simp add: idleSystem_def)
  have sd': "Shutdown (exporter (idleSystem\<lparr>inFlight := [?md]\<rparr>)) (trace (idleSystem\<lparr>inFlight := [?md]\<rparr>)) =
       Some ((scenarioExporter traceIDRouting)\<lparr>stopped := True\<rparr>, None, [])"
    using sd by (simp add: idleSystem_def)
  have "step scenarioSplit scenarioOrder (idleSystem\<lparr>inFlight := [?md]\<rparr>)
      ((idleSystem\<lparr>inFlight := [?md]\<rparr>)\<lparr>exporter := (scenarioExporter traceIDRouting)\<lparr>stopped := True\<rparr>,
          trace := [], shutdownReturned := True\<rparr>)"
    by (rule shutdown [OF sd'])
  then have two: "step scenarioSplit scenarioOrder (idleSystem\<lparr>inFlight := [?md]\<rparr>)
       \<lparr>exporter = (scenarioExporter traceIDRouting)\<lparr>stopped := True\<rparr>, trace = [],
        inFlight = [?md], shutdownReturned = True\<rparr>"
    by (simp add: idleSystem_def)
  show ?thesis using one two sd by blast
qed

text \<open>
  Claim C5. With the key \<open>svcRouting\<close> (mode ByServiceName), for a sub-batch that passes
  the three emptiness validations: when every resource-level group carries the attribute
  \<^verbatim>\<open>service.name\<close>, the extraction returns the map whose keys are exactly the values of
  that attribute over all resource-level groups (each read as a string by \<^verbatim>\<open>Str()\<close>,
  duplicates collapsed), every key mapped to true; when one resource-level group lacks
  the attribute, the extraction returns an error and no identifiers.
\<close>

theorem service_name_identifiers:
  assumes "validated md"
  shows "((\<forall>r\<in>set (ResourceMetrics md). Attributes r ''service.name'' \<noteq> None) \<longrightarrow>
            routingIdentifiersFromMetrics md svcRouting =
              Inr (\<lambda>k. if k \<in> (\<lambda>r. Str (the (Attributes r ''service.name''))) ` set (ResourceMetrics md)
                       then Some True else None))
       \<and> ((\<exists>r\<in>set (ResourceMetrics md). Attributes r ''service.name'' = None) \<longrightarrow>
            routingIdentifiersFromMetrics md svcRouting = Inl (ErrorString ''unable to get metric name''))"
  using assms by (simp add: validated_service svcLoop_present svcLoop_missing)

theorem service_name_identifiers_witness:
  "validated (batchOf [(Some ''a'', [[''cpu'']]), (Some ''b'', []), (Some ''a'', [[]])])
   \<and> routingIdentifiersFromMetrics (batchOf [(Some ''a'', [[''cpu'']]), (Some ''b'', []), (Some ''a'', [[]])])
        svcRouting = Inr (\<lambda>k. if k \<in> {''a'', ''b''} then Some True else None)
   \<and> validated (batchOf [(Some ''a'', [[''cpu'']]), (None, [[''mem'']])])
   \<and> routingIdentifiersFromMetrics (batchOf [(Some ''a'', [[''cpu'']]), (None, [[''mem'']])]) svcRouting =
        Inl (ErrorString ''unable to get metric name'')"
  using service_name_identifiers [of "batchOf [(Some ''a'', [[''cpu'']]), (Some ''b'', []), (Some ''a'', [[]])]"]
    service_name_identifiers [of "batchOf [(Some ''a'', [[''cpu'']]), (None, [[''mem'']])]"]
  by (simp add: validated_def batchOf_def resourceOf_def insert_commute)

text \<open>
  Claim C6. With a key other than \<open>svcRouting\<close> (mode Default), for a sub-batch that passes
  the three emptiness validations, the extraction returns the map with the single key
  that is the name of the first metric of the first scope of the first resource-level
  group; nothing else of the sub-batch matters: any other validated sub-batch whose first
  metric has the same name gives the same identifiers.
\<close>

theorem default_identifier:
  assumes "validated md" and "key \<noteq> svcRouting"
  shows "routingIdentifiersFromMetrics md key = Inr [Name (firstMetric md) \<mapsto> True]
       \<and> (validated md' \<and> Name (firstMetric md') = Name (firstMetric md) \<longrightarrow>
            routingIdentifiersFromMetrics md' key = routingIdentifiersFromMetrics md key)"
  using assms by (simp add: validated_default)

theorem default_identifier_witness:
  "validated (batchOf [(Some ''a'', [[''cpu'', ''mem''], [''disk'']]), (None, [[''net'']])])
   \<and> traceIDRouting \<noteq> svcRouting
   \<and> routingIdentifiersFromMetrics (batchOf [(Some ''a'', [[''cpu'', ''mem''], [''disk'']]), (None, [[''net'']])])
        traceIDRouting = Inr [''cpu'' \<mapsto> True]
   \<and> validated (batchOf [(None, [[''cpu'']])])
   \<and> routingIdentifiersFromMetrics (batchOf [(None, [[''cpu'']])]) traceIDRouting =
       routingIdentifiersFromMetrics (batchOf [(Some ''a'', [[''cpu'', ''mem''], [''disk'']]), (None, [[''net'']])])
        traceIDRouting"
  using default_identifier [of "batchOf [(Some ''a'', [[''cpu'', ''mem''], [''disk'']]), (None, [[''net'']])]"
      traceIDRouting "batchOf [(None, [[''cpu'']])]"]
  by (simp add: validated_def firstMetric_def batchOf_def resourceOf_def)

text \<open>
  Claim C7. The three emptiness validations run in this order and whatever the key: a
  sub-batch with no resource-level group gives \<^verbatim>\<open>empty resource metrics\<close>; one whose first
  resource-level group has no scope gives \<^verbatim>\<open>empty scope metrics\<close>; one whose first scope
  there has no metric gives \<^verbatim>\<open>empty metrics\<close>; the three errors differ. Whenever a
  validation fails, \<^verbatim>\<open>consumeMetric\<close> returns the error of the extraction and the trace is
  as it was: neither \<^verbatim>\<open>Endpoint\<close> nor \<^verbatim>\<open>Exporter\<close> of the load balancer has been called.
\<close>

theorem emptiness_validation:
  "(ResourceMetrics md = [] \<longrightarrow>
      routingIdentifiersFromMetrics md key = Inl (ErrorString ''empty resource metrics''))
   \<and> (ResourceMetrics md \<noteq> [] \<and> ScopeMetrics (hd (ResourceMetrics md)) = [] \<longrightarrow>
      routingIdentifiersFromMetrics md key = Inl (ErrorString ''empty scope metrics''))
   \<and> (ResourceMetrics md \<noteq> [] \<and> ScopeMetrics (hd (ResourceMetrics md)) \<noteq> [] \<and>
      Metrics (hd (ScopeMetrics (hd (ResourceMetrics md)))) = [] \<longrightarrow>
      routingIdentifiersFromMetrics md key = Inl (ErrorString ''empty metrics''))
   \<and> ErrorString ''empty resource metrics'' \<noteq> ErrorString ''empty scope metrics''
   \<and> ErrorString ''empty resource metrics'' \<noteq> ErrorString ''empty metrics''
   \<and> ErrorString ''empty scope metrics'' \<noteq> ErrorString ''empty metrics''
   \<and> (\<not> validated md \<longrightarrow>
        (\<exists>err. routingIdentifiersFromMetrics md (routingKey e) = Inl err \<and>
               consumeMetric rangeOrder e md log = (Some err, log)))"
proof -
  have a: "ResourceMetrics md = [] \<Longrightarrow>
      routingIdentifiersFromMetrics md k = Inl (ErrorString ''empty resource metrics'')" for k
    by (simp add: routingIdentifiersFromMetrics_def)
  have b: "ResourceMetrics md \<noteq> [] \<Longrightarrow> ScopeMetrics (hd (ResourceMetrics md)) = [] \<Longrightarrow>
      routingIdentifiersFromMetrics md k = Inl (ErrorString ''empty scope metrics'')" for k
    by (cases "ResourceMetrics md") (simp_all add: routingIdentifiersFromMetrics_def)
  have c: "ResourceMetrics md \<noteq> [] \<Longrightarrow> ScopeMetrics (hd (ResourceMetrics md)) \<noteq> [] \<Longrightarrow>
      Metrics (hd (ScopeMetrics (hd (ResourceMetrics md)))) = [] \<Longrightarrow>
      routingIdentifiersFromMetrics md k = Inl (ErrorString ''empty metrics'')" for k
    by (cases "ResourceMetrics md"; cases "ScopeMetrics (hd (ResourceMetrics md))")
       (simp_all add: routingIdentifiersFromMetrics_def)
  have d: "\<not> validated md \<Longrightarrow> \<exists>err. routingIdentifiersFromMetrics md (routingKey e) = Inl err"
    unfolding validated_def using a b c by blast
  have e: "routingIdentifiersFromMetrics md (routingKey e) = Inl err \<Longrightarrow>
      consumeMetric rangeOrder e md log = (Some err, log)" for err
    by (simp add: consumeMetric_def)
  show ?thesis using a b c d e by blast
qed

theorem emptiness_validation_witness:
  "routingIdentifiersFromMetrics (batchOf []) svcRouting = Inl (ErrorString ''empty resource metrics'')
   \<and> consumeMetric scenarioOrder (scenarioExporter svcRouting) (batchOf []) [] =
       (Some (ErrorString ''empty resource metrics''), [])
   \<and> routingIdentifiersFromMetrics (batchOf [(Some ''a'', []), (Some ''b'', [[''cpu'']])]) traceIDRouting =
       Inl (ErrorString ''empty scope metrics'')
   \<and> consumeMetric scenarioOrder (scenarioExporter traceIDRouting)
        (batchOf [(Some ''a'', []), (Some ''b'', [[''cpu'']])]) [] =
       (Some (ErrorString ''empty scope metrics''), [])
   \<and> routingIdentifiersFromMetrics (batchOf [(Some ''a'', [[]])]) svcRouting =
       Inl (ErrorString ''empty metrics'')
   \<and> consumeMetric scenarioOrder (scenarioExporter svcRouting) (batchOf [(Some ''a'', [[]])]) [] =
       (Some (ErrorString ''empty metrics''), [])"
proof -
  let ?A = "batchOf []"
  let ?B = "batchOf [(Some ''a'', []), (Some ''b'', [[''cpu'']])]"
  let ?C = "batchOf [(Some ''a'', [[]])]"
  have A: "ResourceMetrics ?A = []" "\<not> validated ?A"
    by (simp_all add: validated_def batchOf_def)
  have B: "ResourceMetrics ?B \<noteq> [] \<and> ScopeMetrics (hd (ResourceMetrics ?B)) = []" "\<not> validated ?B"
    by (simp_all add: validated_def batchOf_def resourceOf_def)
  have C: "ResourceMetrics ?C \<noteq> [] \<and> ScopeMetrics (hd (ResourceMetrics ?C)) \<noteq> [] \<and>
      Metrics (hd (ScopeMetrics (hd (ResourceMetrics ?C)))) = []" "\<not> validated ?C"
    by (simp_all add: validated_def batchOf_def resourceOf_def)
  have k: "routingKey (scenarioExporter key) = key" for key
    by (simp add: scenarioExporter_def)
  from A emptiness_validation [of ?A svcRouting "scenarioExporter svcRouting" scenarioOrder "[]"]
  have "routingIdentifiersFromMetrics ?A svcRouting = Inl (ErrorString ''empty resource metrics'')
     \<and> consumeMetric scenarioOrder (scenarioExporter svcRouting) ?A [] =
         (Some (ErrorString ''empty resource metrics''), [])"
    by (auto simp: k)
  moreover
  from B emptiness_validation [of ?B traceIDRouting "scenarioExporter traceIDRouting" scenarioOrder "[]"]
  have "routingIdentifiersFromMetrics ?B traceIDRouting = Inl (ErrorString ''empty scope metrics'')
     \<and> consumeMetric scenarioOrder (scenarioExporter traceIDRouting) ?B [] =
         (Some (ErrorString ''empty scope metrics''), [])"
    by (auto simp: k)
  moreover
  from C emptiness_validation [of ?C svcRouting "scenarioExporter svcRouting" scenarioOrder "[]"]
  have "routingIdentifiersFromMetrics ?C svcRouting = Inl (ErrorString ''empty metrics'')
     \<and> consumeMetric scenarioOrder (scenarioExporter svcRouting) ?C [] =
         (Some (ErrorString ''empty metrics''), [])"
    by (auto simp: k)
  ultimately show ?thesis by blast
qed

text \<open>
  Claim C8. Given the load balancer, \<^verbatim>\<open>newMetricsExporter\<close> maps the routing key
  \<open>service\<close> to \<open>svcRouting\<close> and both the empty key and \<open>_metric_ID\<close> to
  \<open>traceIDRouting\<close>. For any other key it returns no exporter but the error
  \<^verbatim>\<open>unsupported routing_key:\<close> followed by the key; and for such a key it returns an
  error whatever \<^verbatim>\<open>newLoadBalancer\<close> returned.
\<close>

theorem routing_key_configuration:
  "newMetricsExporter (Inr lb) \<lparr>RoutingKey = ''service''\<rparr> =
     Inr \<lparr>loadBalancer = lb, routingKey = svcRouting, stopped = False, shutdownWg = 0\<rparr>
   \<and> newMetricsExporter (Inr lb) \<lparr>RoutingKey = ''''\<rparr> =
     Inr \<lparr>loadBalancer = lb, routingKey = traceIDRouting, stopped = False, shutdownWg = 0\<rparr>
   \<and> newMetricsExporter (Inr lb) \<lparr>RoutingKey = ''_metric_ID''\<rparr> =
     Inr \<lparr>loadBalancer = lb, routingKey = traceIDRouting, stopped = False, shutdownWg = 0\<rparr>
   \<and> (RoutingKey cfg \<noteq> ''service'' \<and> RoutingKey cfg \<noteq> '''' \<and> RoutingKey cfg \<noteq> ''_metric_ID'' \<longrightarrow>
        newMetricsExporter (Inr lb) cfg = Inl (ErrorString (''unsupported routing_key: '' @ RoutingKey cfg))
        \<and> (\<exists>err. newMetricsExporter lbResult cfg = Inl err))"
  by (cases lbResult) (simp_all add: newMetricsExporter_def)

theorem routing_key_configuration_witness:
  "RoutingKey \<lparr>RoutingKey = ''bogus''\<rparr> \<noteq> ''service''
   \<and> newMetricsExporter (Inr scenarioLoadBalancer) \<lparr>RoutingKey = ''bogus''\<rparr> =
       Inl (ErrorString ''unsupported routing_key: bogus'')
   \<and> newMetricsExporter (Inr scenarioLoadBalancer) \<lparr>RoutingKey = ''service''\<rparr> =
       Inr (scenarioExporter svcRouting)"
  using routing_key_configuration [of scenarioLoadBalancer "\<lparr>RoutingKey = ''bogus''\<rparr>"
      "Inr scenarioLoadBalancer"]
  by (simp add: scenarioExporter_def)

text \<open>
  Claim C9. In the trace that \<^verbatim>\<open>consumeMetric\<close> adds, every forward goes to the endpoint
  resolved for its identifier and is followed at once by one latency sample, tagged with
  that endpoint and with a success tag that is true exactly when the forward returned
  \<^verbatim>\<open>nil\<close>; there is no other sample.
\<close>

theorem one_sample_per_forward:
  "\<exists>evs. snd (consumeMetric rangeOrder e md log) = log @ evs \<and> sampledOnce None evs"
  using consumeMetric_shape [of rangeOrder e md log None] by blast

theorem one_sample_per_forward_witness:
  "snd (consumeMetric scenarioOrder (scenarioExporter svcRouting)
      (batchOf [(Some ''down'', [[''cpu'']]), (Some ''up'', []), (Some ''traces'', [])]) []) =
     [EndpointCall ''down'' ''backend-down'', ExporterCall ''backend-down'' ResolvedMetrics,
      ForwardCall ''backend-down'' (Some (ErrorString ''connection refused'')),
      RecordLatency ''backend-down'' False 7,
      EndpointCall ''traces'' ''backend-traces'', ExporterCall ''backend-traces'' (ResolvedOther ''*tracesExporter'')]
   \<and> sampledOnce None
     [EndpointCall ''down'' ''backend-down'', ExporterCall ''backend-down'' ResolvedMetrics,
      ForwardCall ''backend-down'' (Some (ErrorString ''connection refused'')),
      RecordLatency ''backend-down'' False 7,
      EndpointCall ''traces'' ''backend-traces'', ExporterCall ''backend-traces'' (ResolvedOther ''*tracesExporter'')]"
proof -
  let ?e = "scenarioExporter svcRouting"
  let ?md = "batchOf [(Some ''down'', [[''cpu'']]), (Some ''up'', []), (Some ''traces'', [])]"
  let ?trace = "[EndpointCall ''down'' ''backend-down'', ExporterCall ''backend-down'' ResolvedMetrics,
      ForwardCall ''backend-down'' (Some (ErrorString ''connection refused'')),
      RecordLatency ''backend-down'' False 7,
      EndpointCall ''traces'' ''backend-traces'', ExporterCall ''backend-traces'' (ResolvedOther ''*tracesExporter'')]"
  have tr: "snd (consumeMetric scenarioOrder ?e ?md []) = ?trace"
    by (simp add: consumeMetric_def routingIdentifiersFromMetrics_def scenario_defs Let_def
          del: not_None_eq)
  from one_sample_per_forward [of scenarioOrder ?e ?md "[]"] tr
  have "sampledOnce None ?trace"
    by auto
  then show ?thesis using tr by simp
qed

text \<open>
  Claim C10, as stated, fails: a first resource-level group whose second scope holds a
  metric and whose first scope holds none does contain a scope with a metric, and the
  extraction answers \<^verbatim>\<open>empty metrics\<close>; the dispatch returns this error with no call made.
\<close>

theorem later_scope_not_inspected:
  "Metrics (ScopeMetrics (hd (ResourceMetrics (batchOf [(None, [[], [''cpu'']])]))) ! 1) \<noteq> []
   \<and> routingIdentifiersFromMetrics (batchOf [(None, [[], [''cpu'']])]) traceIDRouting =
       Inl (ErrorString ''empty metrics'')
   \<and> consumeMetric scenarioOrder (scenarioExporter traceIDRouting) (batchOf [(None, [[], [''cpu'']])]) [] =
       (Some (ErrorString ''empty metrics''), [])"
  by (simp add: consumeMetric_def routingIdentifiersFromMetrics_def scenario_defs)

text \<open>
  Claim C10, amended. The scope-level and the metric-level validation inspect only the
  first scope of the first resource-level group. For every sub-batch with a resource-level
  group whose first resource-level group has a scope and whose first scope there has a
  metric (\<open>validated\<close>), none of the three emptiness errors is returned, whatever the other
  scopes and resource-level groups hold; the extraction succeeds in mode Default, and in
  mode ByServiceName when every resource carries \<^verbatim>\<open>service.name\<close>; and once it
  succeeds the dispatch goes on to ask the load balancer for the endpoint of the first
  identifier.
\<close>

theorem first_scope_validation:
  assumes "validated md"
  shows "routingIdentifiersFromMetrics md key \<noteq> Inl (ErrorString ''empty resource metrics'')
       \<and> routingIdentifiersFromMetrics md key \<noteq> Inl (ErrorString ''empty scope metrics'')
       \<and> routingIdentifiersFromMetrics md key \<noteq> Inl (ErrorString ''empty metrics'')
       \<and> (key \<noteq> svcRouting \<or> (\<forall>r\<in>set (ResourceMetrics md). Attributes r ''service.name'' \<noteq> None) \<longrightarrow>
            (\<exists>ids. routingIdentifiersFromMetrics md key = Inr ids))
       \<and> (routingIdentifiersFromMetrics md (routingKey e) = Inr ids \<and> rangeOrder log ids = rid # rids \<longrightarrow>
            (\<exists>evs. snd (consumeMetric rangeOrder e md log) =
                log @ EndpointCall rid (Endpoint (loadBalancer e) log rid) # evs))"
proof -
  have svc: "routingIdentifiersFromMetrics md svcRouting = Inl (ErrorString ''unable to get metric name'')
      \<or> (\<exists>ids. routingIdentifiersFromMetrics md svcRouting = Inr ids)"
  proof (cases "\<forall>r\<in>set (ResourceMetrics md). Attributes r ''service.name'' \<noteq> None")
    case True
    then show ?thesis using assms by (simp add: validated_service svcLoop_present)
  next
    case False
    then show ?thesis using assms by (simp add: validated_service svcLoop_missing)
  qed
  have passes: "routingIdentifiersFromMetrics md key \<noteq> Inl (ErrorString ''empty resource metrics'')
       \<and> routingIdentifiersFromMetrics md key \<noteq> Inl (ErrorString ''empty scope metrics'')
       \<and> routingIdentifiersFromMetrics md key \<noteq> Inl (ErrorString ''empty metrics'')"
  proof (cases "key = svcRouting")
    case True
    then show ?thesis using svc by auto
  next
    case False
    then show ?thesis using assms by (simp add: validated_default)
  qed
  have succeeds: "key \<noteq> svcRouting \<or> (\<forall>r\<in>set (ResourceMetrics md). Attributes r ''service.name'' \<noteq> None)
      \<Longrightarrow> \<exists>ids. routingIdentifiersFromMetrics md key = Inr ids"
    using assms svcLoop_present [of "ResourceMetrics md" Map.empty]
    by (cases "key = svcRouting") (auto simp: validated_service validated_default)
  have proceeds: "routingIdentifiersFromMetrics md (routingKey e) = Inr ids \<Longrightarrow>
      rangeOrder log ids = rid # rids \<Longrightarrow>
      \<exists>evs. snd (consumeMetric rangeOrder e md log) =
                log @ EndpointCall rid (Endpoint (loadBalancer e) log rid) # evs"
    using consumeLoop_first [of e md rid rids None log] by (simp add: consumeMetric_def)
  show ?thesis using passes succeeds proceeds by blast
qed

theorem first_scope_validation_witness:
  "validated (batchOf [(Some ''a'', [[''cpu''], []]), (Some ''b'', []), (Some ''up'', [[]])])
   \<and> routingIdentifiersFromMetrics (batchOf [(Some ''a'', [[''cpu''], []]), (Some ''b'', []), (Some ''up'', [[]])])
        svcRouting \<noteq> Inl (ErrorString ''empty scope metrics'')
   \<and> routingIdentifiersFromMetrics (batchOf [(Some ''a'', [[''cpu''], []]), (Some ''b'', []), (Some ''up'', [[]])])
        svcRouting \<noteq> Inl (ErrorString ''empty metrics'')
   \<and> (\<exists>evs. snd (consumeMetric scenarioOrder (scenarioExporter svcRouting)
          (batchOf [(Some ''a'', [[''cpu''], []]), (Some ''b'', []), (Some ''up'', [[]])]) []) =
          EndpointCall ''a'' ''backend-a'' # evs)"
proof -
  let ?md = "batchOf [(Some ''a'', [[''cpu''], []]), (Some ''b'', []), (Some ''up'', [[]])]"
  let ?ids = "[''a'' \<mapsto> True, ''b'' \<mapsto> True, ''up'' \<mapsto> True]"
  have v: "validated ?md"
    by (simp add: validated_def batchOf_def resourceOf_def)
  have ids: "routingIdentifiersFromMetrics ?md (routingKey (scenarioExporter svcRouting)) = Inr ?ids"
    by (simp add: routingIdentifiersFromMetrics_def scenario_defs)
  have ord: "scenarioOrder [] ?ids = ''a'' # [''b'', ''up'']"
    by (simp add: scenarioOrder_def del: not_None_eq)
  note c = first_scope_validation [OF v, of svcRouting "scenarioExporter svcRouting" ?ids
        scenarioOrder "[]" "''a''" "[''b'', ''up'']"]
  from c have "routingIdentifiersFromMetrics ?md svcRouting \<noteq> Inl (ErrorString ''empty scope metrics'')"
    and "routingIdentifiersFromMetrics ?md svcRouting \<noteq> Inl (ErrorString ''empty metrics'')"
    by blast+
  moreover from c ids ord
  have "\<exists>evs. snd (consumeMetric scenarioOrder (scenarioExporter svcRouting) ?md []) =
          [] @ EndpointCall ''a'' (Endpoint (loadBalancer (scenarioExporter svcRouting)) [] ''a'') # evs"
    by blast
  then have "\<exists>evs. snd (consumeMetric scenarioOrder (scenarioExporter svcRouting) ?md []) =
          EndpointCall ''a'' ''backend-a'' # evs"
    by (simp add: scenarioExporter_def scenarioLoadBalancer_def)
  ultimately show ?thesis using v by blast
qed

end
